theory Spec2Isabelle
  imports Complex_Main
begin

section \<open>Data model\<close>

text \<open>
  The request handlers of \<^verbatim>\<open>server/main.py\<close> exchange the pydantic records of
  \<^verbatim>\<open>models/models.py\<close> and \<^verbatim>\<open>models/api.py\<close>. Those two modules are imported by
  the server but are not part of the sources at hand, so the records below follow the
  data model of the specification (section 3) and the way the handlers use the fields.
  Two fields are renamed because their Python names are HOL constants: \<^verbatim>\<open>id\<close> is
  \<open>id_opt\<close> and \<^verbatim>\<open>filter\<close> is \<open>filter_opt\<close>. Fields that occur in several classes
  are written with the class name in front, as in \<open>DeleteRequest.ids\<close>.
\<close>

text \<open>Modelled from the spec: the enumeration \<^verbatim>\<open>Source\<close> of \<^verbatim>\<open>models/models.py\<close>.\<close>

datatype Source = Source_email | Source_file | Source_chat | Source_other

text \<open>Modelled from the spec: the class \<^verbatim>\<open>DocumentMetadata\<close>, every field optional.\<close>

record DocumentMetadata =
  source :: "Source option"
  source_id :: "string option"
  url :: "string option"
  created_at :: "string option"
  author :: "string option"

text \<open>Modelled from the spec: chunk metadata is document metadata plus the back-reference.\<close>

record DocumentChunkMetadata = DocumentMetadata +
  document_id :: "string option"

text \<open>Modelled from the spec: the class \<^verbatim>\<open>DocumentMetadataFilter\<close>.\<close>

record DocumentMetadataFilter =
  document_id :: "string option"
  source :: "Source option"
  source_id :: "string option"
  author :: "string option"
  start_date :: "string option"
  end_date :: "string option"

text \<open>Modelled from the spec: the class \<^verbatim>\<open>Document\<close>.\<close>

record Document =
  id_opt :: "string option"
  "text" :: string
  metadata :: DocumentMetadata

text \<open>
  Modelled from the spec: a scored chunk as it comes back from a search. Scores and
  embedding components are Python floats; no handler computes with them, they are only
  carried along, and they are given the type of real numbers here.
\<close>

record DocumentChunkWithScore =
  id_opt :: "string option"
  "text" :: string
  metadata :: DocumentChunkMetadata
  embedding :: "real list option"
  score :: real

text \<open>Modelled from the spec: the classes \<^verbatim>\<open>Query\<close> and \<^verbatim>\<open>QueryResult\<close>.\<close>

record Query =
  query :: string
  filter_opt :: "DocumentMetadataFilter option"
  top_k :: int

record QueryResult =
  query :: string
  results :: "DocumentChunkWithScore list"

text \<open>
  Modelled from the spec: the request and response classes of \<^verbatim>\<open>models/api.py\<close>,
  with the fields the handlers read and write.
\<close>

record UpsertRequest =
  documents :: "Document list"

record UpsertResponse =
  ids :: "string list"

record QueryRequest =
  queries :: "Query list"

record QueryResponse =
  results :: "QueryResult list"

record DeleteRequest =
  ids :: "string list option"
  filter_opt :: "DocumentMetadataFilter option"
  delete_all :: "bool option"

record DeleteResponse =
  success :: bool

record ChatRequest =
  content :: string

text \<open>
  The uploaded file of \<^verbatim>\<open>/upsert-file\<close> and the role-tagged messages handed to the
  completion provider (Python dictionaries with the keys \<^verbatim>\<open>role\<close> and \<^verbatim>\<open>content\<close>).
\<close>

record UploadFile =
  filename :: string
  content_type :: string
  file_bytes :: "nat list"

record message =
  role :: string
  message_content :: string

text \<open>What FastAPI's \<^verbatim>\<open>HTTPBearer\<close> extracts from the Authorization header.\<close>

record HTTPAuthorizationCredentials =
  scheme :: string
  credentials :: string


section \<open>Exceptions\<close>

text \<open>
  A Python exception object, as far as the handlers can tell one from another: its class,
  what \<^verbatim>\<open>str(e)\<close> gives, and whether it is an instance of \<^verbatim>\<open>Exception\<close>. The last
  field decides whether \<^verbatim>\<open>except Exception\<close> catches it: \<^verbatim>\<open>KeyboardInterrupt\<close>,
  \<^verbatim>\<open>SystemExit\<close> and \<^verbatim>\<open>asyncio.CancelledError\<close> derive from \<^verbatim>\<open>BaseException\<close> only
  and pass through such a clause, while a bare \<^verbatim>\<open>except:\<close> catches them too.
\<close>

record py_exception =
  exc_class :: string
  exc_str :: string
  exc_is_Exception :: bool

text \<open>
  What leaves a handler by \<^verbatim>\<open>raise\<close>: an \<^verbatim>\<open>HTTPException\<close> built by the handler itself,
  or an exception that no clause of the handler caught.
\<close>

datatype raised =
    HTTPException (status_code: nat) (detail: string)
  | Uncaught py_exception

text \<open>Reading the global \<^verbatim>\<open>datastore\<close> before \<^verbatim>\<open>startup\<close> has bound it.\<close>

definition NameError_datastore :: py_exception where
  \<open>NameError_datastore =
     \<lparr>exc_class = ''NameError'', exc_str = ''name 'datastore' is not defined'',
      exc_is_Exception = True\<rparr>\<close>

text \<open>\<^verbatim>\<open>results[0]\<close> on an empty list.\<close>

definition IndexError_results :: py_exception where
  "IndexError_results =
     \<lparr>exc_class = ''IndexError'', exc_str = ''list index out of range'',
      exc_is_Exception = True\<rparr>"


section \<open>The process: collaborators, state and trace\<close>

text \<open>
  The datastore object returned by \<^verbatim>\<open>get_datastore()\<close>: its three coroutines. Each acts
  on the state \<open>'s\<close> of the world outside the server process (the vector index, the
  embedding provider) and either returns or raises.
\<close>

record 's DataStore =
  upsert :: "Document list \<Rightarrow> 's \<Rightarrow> (py_exception + string list) \<times> 's"
  query :: "Query list \<Rightarrow> 's \<Rightarrow> (py_exception + QueryResult list) \<times> 's"
  delete :: "string list option \<Rightarrow> DocumentMetadataFilter option \<Rightarrow> bool option
               \<Rightarrow> 's \<Rightarrow> (py_exception + bool) \<times> 's"

text \<open>
  The names the module imports or reads from the environment and that are defined
  outside \<^verbatim>\<open>server/main.py\<close>: the configured token, the metadata parser, the file
  reader, the completion provider, the index listing and the datastore factory.
\<close>

record 's collaborators =
  BEARER_TOKEN :: string
  parse_raw :: "string \<Rightarrow> py_exception + DocumentMetadata"
  get_document_from_file ::
    "UploadFile \<Rightarrow> DocumentMetadata \<Rightarrow> 's \<Rightarrow> (py_exception + Document) \<times> 's"
  get_chat_completion :: "message list \<Rightarrow> 's \<Rightarrow> (py_exception + string) \<times> 's"
  list_indexes :: "'s \<Rightarrow> (py_exception + string list) \<times> 's"
  get_datastore :: "'s \<Rightarrow> (py_exception + 's DataStore) \<times> 's"

text \<open>
  Everything a handler does besides returning is recorded, in order, in a trace: the
  calls it makes to its collaborators and what it writes to the console.
\<close>

datatype event =
    Print_credentials HTTPAuthorizationCredentials
  | Print_Error py_exception
  | Print_exc py_exception
  | Print_messages "message list"
  | Call_get_document_from_file UploadFile DocumentMetadata
  | Call_datastore_upsert "Document list"
  | Call_datastore_query "Query list"
  | Call_datastore_delete "string list option" "DocumentMetadataFilter option" "bool option"
  | Call_get_chat_completion "message list"
  | Call_list_indexes
  | Call_get_datastore

text \<open>
  The state of the running process: the module-level global \<^verbatim>\<open>datastore\<close> (unbound
  until \<^verbatim>\<open>startup\<close> has run), the world outside, and the trace so far.
\<close>

record 's process =
  datastore :: "'s DataStore option"
  external :: 's
  trace :: "event list"

definition emit :: "event \<Rightarrow> 's process \<Rightarrow> 's process" where
  "emit ev p = p\<lparr>trace := trace p @ [ev]\<rparr>"

text \<open>Calling a collaborator: the call is recorded and the outside world moves on.\<close>

definition await :: "event \<Rightarrow> ('s \<Rightarrow> 'a \<times> 's) \<Rightarrow> 's process \<Rightarrow> 'a \<times> 's process" where
  "await ev f p = (case f (external p) of (r, s') \<Rightarrow> (r, (emit ev p)\<lparr>external := s'\<rparr>))"

text \<open>
  The three expressions \<^verbatim>\<open>await datastore.upsert(...)\<close>, \<^verbatim>\<open>await datastore.query(...)\<close>
  and \<^verbatim>\<open>await datastore.delete(...)\<close>: the global is looked up first, which raises
  \<^verbatim>\<open>NameError\<close> while it is unbound.
\<close>

definition datastore_upsert ::
  "Document list \<Rightarrow> 's process \<Rightarrow> (py_exception + string list) \<times> 's process" where
  "datastore_upsert docs p =
     (case datastore p of
        None \<Rightarrow> (Inl NameError_datastore, p)
      | Some ds \<Rightarrow> await (Call_datastore_upsert docs) (DataStore.upsert ds docs) p)"

definition datastore_query ::
  "Query list \<Rightarrow> 's process \<Rightarrow> (py_exception + QueryResult list) \<times> 's process" where
  "datastore_query qs p =
     (case datastore p of
        None \<Rightarrow> (Inl NameError_datastore, p)
      | Some ds \<Rightarrow> await (Call_datastore_query qs) (DataStore.query ds qs) p)"

definition datastore_delete ::
  "string list option \<Rightarrow> DocumentMetadataFilter option \<Rightarrow> bool option
     \<Rightarrow> 's process \<Rightarrow> (py_exception + bool) \<times> 's process" where
  "datastore_delete i f a p =
     (case datastore p of
        None \<Rightarrow> (Inl NameError_datastore, p)
      | Some ds \<Rightarrow> await (Call_datastore_delete i f a) (DataStore.delete ds i f a) p)"

text \<open>
  The clause \<^verbatim>\<open>except Exception as e: print("Error:", e); raise HTTPException(500, ...)\<close>
  shared by the handlers; \<open>tb\<close> says whether the clause also calls
  \<^verbatim>\<open>traceback.print_exc()\<close>, and \<open>d\<close> is the detail of the response.
\<close>

definition except_Exception ::
  "bool \<Rightarrow> (py_exception \<Rightarrow> string) \<Rightarrow> py_exception \<Rightarrow> 's process
     \<Rightarrow> (raised + 'a) \<times> 's process" where
  "except_Exception tb d e p =
     (if exc_is_Exception e
      then (Inl (HTTPException 500 (d e)),
            if tb then emit (Print_exc e) (emit (Print_Error e) p) else emit (Print_Error e) p)
      else (Inl (Uncaught e), p))"

definition Internal_Service_Error :: "py_exception \<Rightarrow> string" where
  "Internal_Service_Error e = ''Internal Service Error''"


section \<open>Credential validation\<close>

text \<open>
  \<^verbatim>\<open>validate_token\<close> prints the credentials twice, rejects them with status 401 unless
  the scheme is exactly \<^verbatim>\<open>Bearer\<close> and the credential is the configured token, and
  returns them otherwise.
\<close>

definition validate_token ::
  "'s collaborators \<Rightarrow> HTTPAuthorizationCredentials \<Rightarrow> 's process
     \<Rightarrow> (raised + HTTPAuthorizationCredentials) \<times> 's process" where
  "validate_token sv creds p =
     (let p' = emit (Print_credentials creds) (emit (Print_credentials creds) p)
      in if scheme creds \<noteq> ''Bearer'' \<or> credentials creds \<noteq> BEARER_TOKEN sv
         then (Inl (HTTPException 401 ''Invalid or missing token''), p')
         else (Inr creds, p'))"


section \<open>The request handlers\<close>

subsection \<open>Truth-value testing\<close>

text \<open>
  Python's truth value of the three optional fields of a delete request: a list is true
  when it is present and non-empty, a filter object when it is present, and a Boolean
  when it is present and \<^verbatim>\<open>True\<close>.
\<close>

definition truthy_list :: "'a list option \<Rightarrow> bool" where
  "truthy_list x = (case x of None \<Rightarrow> False | Some xs \<Rightarrow> xs \<noteq> [])"

definition truthy_object :: "'a option \<Rightarrow> bool" where
  "truthy_object x = (case x of None \<Rightarrow> False | Some _ \<Rightarrow> True)"

definition truthy_bool :: "bool option \<Rightarrow> bool" where
  "truthy_bool x = (case x of None \<Rightarrow> False | Some b \<Rightarrow> b)"

subsection \<open>\<^verbatim>\<open>/upsert-file\<close>\<close>

text \<open>
  The metadata form field is parsed when it is a non-empty string; a missing or empty
  field gives the default metadata, and so does any exception of the parser (the clause
  is a bare \<^verbatim>\<open>except:\<close>). The document is then read from the file outside any
  \<^verbatim>\<open>try\<close>, and stored; a failure of the store is answered with status 500 and the
  detail \<^verbatim>\<open>f"str({e})"\<close>.
\<close>

definition default_metadata :: DocumentMetadata where
  "default_metadata =
     \<lparr>DocumentMetadata.source = Some Source_file, source_id = None, url = None,
      created_at = None, author = None\<rparr>"

definition metadata_obj :: "'s collaborators \<Rightarrow> string option \<Rightarrow> DocumentMetadata" where
  "metadata_obj sv form =
     (case form of
        None \<Rightarrow> default_metadata
      | Some m \<Rightarrow>
          if m = [] then default_metadata
          else (case parse_raw sv m of Inl e \<Rightarrow> default_metadata | Inr obj \<Rightarrow> obj))"

definition str_detail :: "py_exception \<Rightarrow> string" where
  "str_detail e = ''str('' @ exc_str e @ '')''"

definition upsert_file ::
  "'s collaborators \<Rightarrow> UploadFile \<Rightarrow> string option \<Rightarrow> 's process
     \<Rightarrow> (raised + UpsertResponse) \<times> 's process" where
  "upsert_file sv file form p =
     (let obj = metadata_obj sv form in
      case await (Call_get_document_from_file file obj) (get_document_from_file sv file obj) p of
        (Inl e, p1) \<Rightarrow> (Inl (Uncaught e), p1)
      | (Inr document, p1) \<Rightarrow>
          (case datastore_upsert [document] p1 of
             (Inr new_ids, p2) \<Rightarrow> (Inr \<lparr>UpsertResponse.ids = new_ids\<rparr>, p2)
           | (Inl e, p2) \<Rightarrow> except_Exception False str_detail e p2))"

subsection \<open>\<^verbatim>\<open>/upsert\<close>\<close>

definition upsert :: "UpsertRequest \<Rightarrow> 's process \<Rightarrow> (raised + UpsertResponse) \<times> 's process" where
  "upsert request p =
     (case datastore_upsert (documents request) p of
        (Inr new_ids, p1) \<Rightarrow> (Inr \<lparr>UpsertResponse.ids = new_ids\<rparr>, p1)
      | (Inl e, p1) \<Rightarrow> except_Exception False Internal_Service_Error e p1)"

subsection \<open>\<^verbatim>\<open>/query\<close> of the main application\<close>

definition query_main :: "QueryRequest \<Rightarrow> 's process \<Rightarrow> (raised + QueryResponse) \<times> 's process" where
  "query_main request p =
     (case datastore_query (queries request) p of
        (Inr found, p1) \<Rightarrow> (Inr \<lparr>QueryResponse.results = found\<rparr>, p1)
      | (Inl e, p1) \<Rightarrow> except_Exception True Internal_Service_Error e p1)"

subsection \<open>\<^verbatim>\<open>/chat\<close>\<close>

text \<open>\<^verbatim>\<open>sep.join(xs)\<close> and \<^verbatim>\<open>s.replace(c, new)\<close> for a one-character \<open>c\<close>.\<close>

fun join :: "string \<Rightarrow> string list \<Rightarrow> string" where
  "join sep [] = []"
| "join sep [x] = x"
| "join sep (x # y # ys) = x @ sep @ join sep (y # ys)"

definition replace :: "char \<Rightarrow> string \<Rightarrow> string \<Rightarrow> string" where
  "replace c new s = concat (map (\<lambda>x. if x = c then new else [x]) s)"

definition prompt :: "string \<Rightarrow> string" where
  \<open>prompt context =
     ''\<newline>'' @
     ''             You are an AI assistant providing helpful advice. You are given the following extracted parts of a long document and a question. Provide a conversational answer based on the context provided.\<newline>'' @
     ''If you can't find the answer in the context below, just say "Hmm, I'm not sure." Don't try to make up an answer.\<newline>'' @
     ''You will reply to me in the same language as the language used in user's question\<newline>'' @
     ''If the question is not related to the context, politely respond that you are tuned to only answer questions that are related to the context.\<newline>'' @
     ''        =========\<newline>'' @
     ''        '' @ context @ ''\<newline>'' @
     ''        =========\<newline>'' @
     ''              ''\<close>

definition chat_messages :: "ChatRequest \<Rightarrow> QueryResult \<Rightarrow> message list" where
  "chat_messages requests r0 =
     (let context = join ''\<newline>'' (map DocumentChunkWithScore.text (QueryResult.results r0));
          context = replace (CHR 0x0A) '' ----------------------------- '' context
      in [\<lparr>role = ''system'', message_content = prompt context\<rparr>,
          \<lparr>role = ''user'', message_content = content requests\<rparr>])"

definition chat ::
  "'s collaborators \<Rightarrow> ChatRequest \<Rightarrow> 's process \<Rightarrow> (raised + string) \<times> 's process" where
  "chat sv requests p =
     (if content requests = []
      then (Inl (HTTPException 400 ''One of content is required''), p)
      else
        (case datastore_query
                [\<lparr>Query.query = content requests, filter_opt = None, top_k = 3\<rparr>] p of
           (Inl e, p1) \<Rightarrow> except_Exception True Internal_Service_Error e p1
         | (Inr [], p1) \<Rightarrow> except_Exception True Internal_Service_Error IndexError_results p1
         | (Inr (r0 # _), p1) \<Rightarrow>
             (let messages = chat_messages requests r0;
                  p2 = emit (Print_messages messages) p1
              in case await (Call_get_chat_completion messages)
                        (get_chat_completion sv messages) p2 of
                   (Inl e, p3) \<Rightarrow> except_Exception True Internal_Service_Error e p3
                 | (Inr completion, p3) \<Rightarrow> (Inr completion, p3))))"

subsection \<open>\<^verbatim>\<open>/list-index\<close>\<close>

definition list_index :: "'s collaborators \<Rightarrow> 's process \<Rightarrow> (raised + string list) \<times> 's process" where
  "list_index sv p =
     (case await Call_list_indexes (list_indexes sv) p of
        (Inr indexes, p1) \<Rightarrow> (Inr indexes, p1)
      | (Inl e, p1) \<Rightarrow> except_Exception False Internal_Service_Error e p1)"

subsection \<open>\<^verbatim>\<open>/query\<close> of the sub-application\<close>

definition query :: "QueryRequest \<Rightarrow> 's process \<Rightarrow> (raised + QueryResponse) \<times> 's process" where
  "query request p =
     (case datastore_query (queries request) p of
        (Inr found, p1) \<Rightarrow> (Inr \<lparr>QueryResponse.results = found\<rparr>, p1)
      | (Inl e, p1) \<Rightarrow> except_Exception False Internal_Service_Error e p1)"

subsection \<open>\<^verbatim>\<open>/delete\<close>\<close>

definition delete :: "DeleteRequest \<Rightarrow> 's process \<Rightarrow> (raised + DeleteResponse) \<times> 's process" where
  "delete request p =
     (if \<not> (truthy_list (DeleteRequest.ids request)
             \<or> truthy_object (DeleteRequest.filter_opt request)
             \<or> truthy_bool (delete_all request))
      then (Inl (HTTPException 400 ''One of ids, filter, or delete_all is required''), p)
      else
        (case datastore_delete (DeleteRequest.ids request) (DeleteRequest.filter_opt request)
                (delete_all request) p of
           (Inr done_ok, p1) \<Rightarrow> (Inr \<lparr>success = done_ok\<rparr>, p1)
         | (Inl e, p1) \<Rightarrow> except_Exception False Internal_Service_Error e p1))"

subsection \<open>Startup\<close>

text \<open>
  The startup hook is the only function that declares \<^verbatim>\<open>global datastore\<close>; it binds
  the global to what the factory returns. An exception of the factory leaves the global
  unbound and ends the startup.
\<close>

definition startup :: "'s collaborators \<Rightarrow> 's process \<Rightarrow> (raised + unit) \<times> 's process" where
  "startup sv p =
     (case await Call_get_datastore (get_datastore sv) p of
        (Inl e, p1) \<Rightarrow> (Inl (Uncaught e), p1)
      | (Inr ds, p1) \<Rightarrow> (Inr (), p1\<lparr>datastore := Some ds\<rparr>))"


section \<open>Routing and the life of the process\<close>

text \<open>
  The module creates \<^verbatim>\<open>bearer_scheme = HTTPBearer()\<close> and declares
  \<^verbatim>\<open>validate_token\<close> with \<^verbatim>\<open>credentials = Depends(bearer_scheme)\<close>. \<^verbatim>\<open>HTTPBearer\<close> is
  a class of the FastAPI framework; called on a request, with \<^verbatim>\<open>auto_error\<close> left at
  its default, it reads the Authorization header, splits it at the first space into a
  scheme and a credential, answers with status 403 when the header, the scheme or the
  credential is missing or empty or when the scheme is not \<^verbatim>\<open>bearer\<close> in any
  capitalisation, and returns the two parts otherwise.
\<close>

definition lower_char :: "char \<Rightarrow> char" where
  "lower_char c =
     (case map_of (zip ''ABCDEFGHIJKLMNOPQRSTUVWXYZ'' ''abcdefghijklmnopqrstuvwxyz'') c of
        None \<Rightarrow> c
      | Some l \<Rightarrow> l)"

definition lower :: "string \<Rightarrow> string" where
  "lower s = map lower_char s"

text \<open>\<^verbatim>\<open>s.partition(" ")\<close> without its middle component, the separator.\<close>

definition partition_space :: "string \<Rightarrow> string \<times> string" where
  "partition_space s =
     (takeWhile (\<lambda>c. c \<noteq> CHR '' '') s, drop 1 (dropWhile (\<lambda>c. c \<noteq> CHR '' '') s))"

definition get_authorization_scheme_param :: "string option \<Rightarrow> string \<times> string" where
  "get_authorization_scheme_param authorization =
     (if \<not> truthy_list authorization then ([], [])
      else (case authorization of None \<Rightarrow> ([], []) | Some h \<Rightarrow> partition_space h))"

definition bearer_scheme :: "string option \<Rightarrow> raised + HTTPAuthorizationCredentials" where
  "bearer_scheme authorization =
     (case get_authorization_scheme_param authorization of
        (sch, cred) \<Rightarrow>
          if \<not> (truthy_list authorization \<and> sch \<noteq> [] \<and> cred \<noteq> [])
          then Inl (HTTPException 403 ''Not authenticated'')
          else if lower sch \<noteq> ''bearer''
          then Inl (HTTPException 403 ''Invalid authentication credentials'')
          else Inr \<lparr>scheme = sch, credentials = cred\<rparr>)"

text \<open>
  The routes the two applications register. Both applications are created with
  \<^verbatim>\<open>dependencies=[Depends(validate_token)]\<close>, so each request first passes through
  \<^verbatim>\<open>bearer_scheme\<close>, then through \<^verbatim>\<open>validate_token\<close> with the credentials that
  \<^verbatim>\<open>bearer_scheme\<close> returned, and reaches its handler only when both return. A request
  is given here by the value of its Authorization header, if it has one, and by its
  route and payload.
\<close>

datatype request =
    POST_upsert_file UploadFile "string option"
  | POST_upsert UpsertRequest
  | POST_query QueryRequest
  | POST_chat ChatRequest
  | GET_list_index
  | POST_sub_query QueryRequest
  | DELETE_delete DeleteRequest

datatype response =
    Upsert_response UpsertResponse
  | Query_response QueryResponse
  | Chat_response string
  | List_index_response "string list"
  | Delete_response DeleteResponse

definition returning :: "('a \<Rightarrow> response) \<Rightarrow> (raised + 'a) \<times> 'p \<Rightarrow> (raised + response) \<times> 'p" where
  "returning wrap out = (case out of (Inl e, p) \<Rightarrow> (Inl e, p) | (Inr r, p) \<Rightarrow> (Inr (wrap r), p))"

fun route :: "'s collaborators \<Rightarrow> request \<Rightarrow> 's process \<Rightarrow> (raised + response) \<times> 's process" where
  "route sv (POST_upsert_file file form) p = returning Upsert_response (upsert_file sv file form p)"
| "route sv (POST_upsert request) p = returning Upsert_response (upsert request p)"
| "route sv (POST_query request) p = returning Query_response (query_main request p)"
| "route sv (POST_chat requests) p = returning Chat_response (chat sv requests p)"
| "route sv GET_list_index p = returning List_index_response (list_index sv p)"
| "route sv (POST_sub_query request) p = returning Query_response (query request p)"
| "route sv (DELETE_delete request) p = returning Delete_response (delete request p)"

definition serve_request ::
  "'s collaborators \<Rightarrow> string option \<Rightarrow> request \<Rightarrow> 's process
     \<Rightarrow> (raised + response) \<times> 's process" where
  "serve_request sv authorization rq p =
     (case bearer_scheme authorization of
        Inl e \<Rightarrow> (Inl e, p)
      | Inr creds \<Rightarrow>
          (case validate_token sv creds p of
             (Inl e, p1) \<Rightarrow> (Inl e, p1)
           | (Inr _, p1) \<Rightarrow> route sv rq p1))"

text \<open>Requests served one after the other, each on the state the previous one left.\<close>

fun serve ::
  "'s collaborators \<Rightarrow> (string option \<times> request) list \<Rightarrow> 's process
     \<Rightarrow> (raised + response) list \<times> 's process" where
  "serve sv [] p = ([], p)"
| "serve sv ((authorization, rq) # rest) p =
     (case serve_request sv authorization rq p of
        (out, p1) \<Rightarrow> (case serve sv rest p1 of (outs, p2) \<Rightarrow> (out # outs, p2)))"

text \<open>
  A process runs the startup hook once and then serves requests; when the hook raises,
  the application does not start and serves nothing.
\<close>

definition run ::
  "'s collaborators \<Rightarrow> (string option \<times> request) list \<Rightarrow> 's process
     \<Rightarrow> (raised + (raised + response) list) \<times> 's process" where
  "run sv inbound p =
     (case startup sv p of
        (Inl e, p1) \<Rightarrow> (Inl e, p1)
      | (Inr _, p1) \<Rightarrow> (case serve sv inbound p1 of (outs, p2) \<Rightarrow> (Inr outs, p2)))"

text \<open>The trace events that are calls of the datastore, and those that select it.\<close>

fun is_datastore_call :: "event \<Rightarrow> bool" where
  "is_datastore_call (Call_datastore_upsert _) = True"
| "is_datastore_call (Call_datastore_query _) = True"
| "is_datastore_call (Call_datastore_delete _ _ _) = True"
| "is_datastore_call _ = False"

fun is_get_datastore :: "event \<Rightarrow> bool" where
  "is_get_datastore Call_get_datastore = True"
| "is_get_datastore _ = False"

fun is_Print_exc :: "event \<Rightarrow> bool" where
  "is_Print_exc (Print_exc _) = True"
| "is_Print_exc _ = False"


section \<open>A small concrete world\<close>

text \<open>
  An in-memory datastore and collaborators on which the theorems below are instantiated.
  The outside world is the list of the ids stored so far. The datastore stores the ids of
  the documents it is given (\<open>generated\<close> for a document without id), answers each
  query with one result holding a single chunk, and empties the store on
  \<^verbatim>\<open>delete_all\<close>. A second datastore raises on every call. The metadata parser accepts
  one string and rejects every other.
\<close>

definition demo_chunk :: DocumentChunkWithScore where
  "demo_chunk =
     \<lparr>DocumentChunkWithScore.id_opt = Some ''1_0'', text = ''A dog ran in the park.'',
      metadata = \<lparr>DocumentMetadata.source = Some Source_file, source_id = None, url = None,
                   created_at = None, author = None,
                   DocumentChunkMetadata.document_id = Some ''1''\<rparr>,
      embedding = None, score = 1\<rparr>"

definition demo_id :: "Document \<Rightarrow> string" where
  "demo_id d = (case Document.id_opt d of None \<Rightarrow> ''generated'' | Some i \<Rightarrow> i)"

definition demo_datastore :: "string list DataStore" where
  "demo_datastore =
     \<lparr>DataStore.upsert = (\<lambda>docs s. (Inr (map demo_id docs), s @ map demo_id docs)),
      DataStore.query =
        (\<lambda>qs s. (Inr (map (\<lambda>q. \<lparr>QueryResult.query = Query.query q,
                                  results = [demo_chunk]\<rparr>) qs), s)),
      DataStore.delete =
        (\<lambda>i f a s. (Inr True, if a = Some True then [] else s))\<rparr>"

definition BackendError :: py_exception where
  "BackendError =
     \<lparr>exc_class = ''BackendError'', exc_str = ''index unavailable'', exc_is_Exception = True\<rparr>"

definition failing_datastore :: "string list DataStore" where
  "failing_datastore =
     \<lparr>DataStore.upsert = (\<lambda>docs s. (Inl BackendError, s)),
      DataStore.query = (\<lambda>qs s. (Inl BackendError, s)),
      DataStore.delete = (\<lambda>i f a s. (Inl BackendError, s))\<rparr>"

definition ValidationError :: py_exception where
  "ValidationError =
     \<lparr>exc_class = ''ValidationError'', exc_str = ''1 validation error for DocumentMetadata'',
      exc_is_Exception = True\<rparr>"

definition demo_document :: "UploadFile \<Rightarrow> DocumentMetadata \<Rightarrow> Document" where
  "demo_document f m =
     \<lparr>Document.id_opt = None, text = map (\<lambda>b. char_of b) (file_bytes f), metadata = m\<rparr>"

definition demo_parse_raw :: "string \<Rightarrow> py_exception + DocumentMetadata" where
  \<open>demo_parse_raw m =
     (if m = ''{"source": "email"}''
      then Inr \<lparr>DocumentMetadata.source = Some Source_email, source_id = None, url = None,
                created_at = None, author = None\<rparr>
      else Inl ValidationError)\<close>

definition demo_collaborators :: "string list collaborators" where
  "demo_collaborators =
     \<lparr>BEARER_TOKEN = ''secret'',
      parse_raw = demo_parse_raw,
      get_document_from_file = (\<lambda>f m s. (Inr (demo_document f m), s)),
      get_chat_completion = (\<lambda>ms s. (Inr ''The dog ran in the park.'', s)),
      list_indexes = (\<lambda>s. (Inr [''demo''], s)),
      get_datastore = (\<lambda>s. (Inr demo_datastore, s))\<rparr>"

definition demo_file :: UploadFile where
  "demo_file = \<lparr>filename = ''a.txt'', content_type = ''text/plain'', file_bytes = [104, 105]\<rparr>"

definition demo_credentials :: HTTPAuthorizationCredentials where
  "demo_credentials = \<lparr>scheme = ''Bearer'', credentials = ''secret''\<rparr>"

definition demo_authorization :: "string option" where
  "demo_authorization = Some ''Bearer secret''"

definition unbound_process :: "string list process" where
  "unbound_process = \<lparr>datastore = None, external = [], trace = []\<rparr>"

definition demo_process :: "string list process" where
  "demo_process = \<lparr>datastore = Some demo_datastore, external = [''7''], trace = []\<rparr>"

definition failing_process :: "string list process" where
  "failing_process = \<lparr>datastore = Some failing_datastore, external = [''7''], trace = []\<rparr>"

definition demo_documents :: "Document list" where
  "demo_documents =
     [\<lparr>Document.id_opt = Some ''1'', text = ''A cat sat on a mat.'', metadata = default_metadata\<rparr>,
      \<lparr>Document.id_opt = None, text = ''A dog ran in the park.'', metadata = default_metadata\<rparr>]"

definition demo_queries :: "Query list" where
  "demo_queries =
     [\<lparr>Query.query = ''Where did the dog go?'', filter_opt = None, top_k = 1\<rparr>,
      \<lparr>Query.query = ''Where did the cat sit?'', filter_opt = None, top_k = 5\<rparr>]"

definition empty_delete :: DeleteRequest where
  "empty_delete = \<lparr>DeleteRequest.ids = Some [], filter_opt = None, delete_all = None\<rparr>"

definition delete_everything :: DeleteRequest where
  "delete_everything = \<lparr>DeleteRequest.ids = None, filter_opt = None, delete_all = Some True\<rparr>"


section \<open>What a handler leaves alone\<close>

text \<open>
  Two processes have the same binding when the global \<^verbatim>\<open>datastore\<close> holds the same
  object in both and the factory has been called equally often.
\<close>

definition same_binding :: "'s process \<Rightarrow> 's process \<Rightarrow> bool" where
  "same_binding p p' \<longleftrightarrow>
     datastore p' = datastore p
     \<and> List.filter is_get_datastore (trace p') = List.filter is_get_datastore (trace p)"


section \<open>Auxiliary facts\<close>

subsection \<open>The statuses a handler answers with\<close>

lemma except_Exception_status:
  "fst (except_Exception tb dt e p) = Inl (HTTPException n d) \<Longrightarrow> n = 500"
  by (simp add: except_Exception_def split: if_splits)

lemma returning_status:
  "fst (returning wrap out) = Inl x \<Longrightarrow> fst out = Inl x"
  by (cases out) (auto simp: returning_def split: sum.splits)

lemma upsert_file_status:
  "fst (upsert_file sv file form p) = Inl (HTTPException n d) \<Longrightarrow> n = 500"
  by (auto simp: upsert_file_def Let_def split: prod.splits sum.splits
        dest: except_Exception_status)

lemma upsert_status: "fst (upsert request p) = Inl (HTTPException n d) \<Longrightarrow> n = 500"
  by (auto simp: upsert_def split: prod.splits sum.splits dest: except_Exception_status)

lemma query_main_status: "fst (query_main request p) = Inl (HTTPException n d) \<Longrightarrow> n = 500"
  by (auto simp: query_main_def split: prod.splits sum.splits dest: except_Exception_status)

lemma query_status: "fst (query request p) = Inl (HTTPException n d) \<Longrightarrow> n = 500"
  by (auto simp: query_def split: prod.splits sum.splits dest: except_Exception_status)

lemma chat_status:
  "fst (chat sv requests p) = Inl (HTTPException n d) \<Longrightarrow> n = 400 \<or> n = 500"
  by (auto simp: chat_def Let_def split: if_splits prod.splits sum.splits list.splits
        dest: except_Exception_status)

lemma list_index_status: "fst (list_index sv p) = Inl (HTTPException n d) \<Longrightarrow> n = 500"
  by (auto simp: list_index_def split: prod.splits sum.splits dest: except_Exception_status)

lemma delete_status:
  "fst (delete request p) = Inl (HTTPException n d) \<Longrightarrow> n = 400 \<or> n = 500"
  by (auto simp: delete_def split: if_splits prod.splits sum.splits
        dest: except_Exception_status)

lemma route_status:
  "fst (route sv rq p) = Inl (HTTPException n d) \<Longrightarrow> n = 400 \<or> n = 500"
  by (cases rq)
     (auto dest!: returning_status
        dest: upsert_file_status upsert_status query_main_status query_status chat_status
          list_index_status delete_status)

lemma bearer_scheme_status:
  "bearer_scheme authorization = Inl x
     \<Longrightarrow> x = HTTPException 403 ''Not authenticated''
       \<or> x = HTTPException 403 ''Invalid authentication credentials''"
  by (auto simp: bearer_scheme_def split: prod.splits if_splits)

subsection \<open>Every step of a handler keeps the binding\<close>

lemma same_binding_refl: "same_binding p p"
  by (simp add: same_binding_def)

lemma same_binding_trans: "same_binding p q \<Longrightarrow> same_binding q r \<Longrightarrow> same_binding p r"
  by (simp add: same_binding_def)

lemma same_binding_emit: "\<not> is_get_datastore ev \<Longrightarrow> same_binding p (emit ev p)"
  by (simp add: same_binding_def emit_def)

lemma same_binding_await:
  "\<not> is_get_datastore ev \<Longrightarrow> same_binding p (snd (await ev f p))"
  by (simp add: same_binding_def await_def emit_def split: prod.splits)

lemma same_binding_except: "same_binding p (snd (except_Exception tb dt e p))"
  by (simp add: same_binding_def except_Exception_def emit_def)

lemma same_binding_datastore_upsert: "same_binding p (snd (datastore_upsert docs p))"
  by (simp add: datastore_upsert_def same_binding_refl same_binding_await split: option.splits)

lemma same_binding_datastore_query: "same_binding p (snd (datastore_query qs p))"
  by (simp add: datastore_query_def same_binding_refl same_binding_await split: option.splits)

lemma same_binding_datastore_delete: "same_binding p (snd (datastore_delete i f a p))"
  by (simp add: datastore_delete_def same_binding_refl same_binding_await split: option.splits)

lemma same_binding_upsert: "same_binding p (snd (upsert request p))"
  using same_binding_datastore_upsert [of p "documents request"]
  by (auto simp: upsert_def split: prod.splits sum.splits
        intro: same_binding_trans [OF _ same_binding_except])

lemma same_binding_query_main: "same_binding p (snd (query_main request p))"
  using same_binding_datastore_query [of p "queries request"]
  by (auto simp: query_main_def split: prod.splits sum.splits
        intro: same_binding_trans [OF _ same_binding_except])

lemma same_binding_query: "same_binding p (snd (query request p))"
  using same_binding_datastore_query [of p "queries request"]
  by (auto simp: query_def split: prod.splits sum.splits
        intro: same_binding_trans [OF _ same_binding_except])

lemma same_binding_delete: "same_binding p (snd (delete request p))"
  using same_binding_datastore_delete
          [of p "DeleteRequest.ids request" "DeleteRequest.filter_opt request" "delete_all request"]
  by (auto simp: delete_def same_binding_refl split: prod.splits sum.splits
        intro: same_binding_trans [OF _ same_binding_except])

lemma same_binding_list_index: "same_binding p (snd (list_index sv p))"
  using same_binding_await [of Call_list_indexes p "list_indexes sv"]
  by (auto simp: list_index_def split: prod.splits sum.splits
        intro: same_binding_trans [OF _ same_binding_except])

lemma same_binding_upsert_file: "same_binding p (snd (upsert_file sv file form p))"
proof -
  let ?obj = "metadata_obj sv form"
  let ?a = "await (Call_get_document_from_file file ?obj) (get_document_from_file sv file ?obj) p"
  have a: "same_binding p (snd ?a)"
    by (simp add: same_binding_await)
  show ?thesis
  proof (cases "fst ?a")
    case (Inl e)
    then show ?thesis using a
      by (cases ?a) (simp add: upsert_file_def Let_def)
  next
    case (Inr document)
    have b: "same_binding (snd ?a) (snd (datastore_upsert [document] (snd ?a)))"
      by (rule same_binding_datastore_upsert)
    from Inr show ?thesis using same_binding_trans [OF a b]
      by (cases ?a)
         (auto simp: upsert_file_def Let_def split: prod.splits sum.splits
            intro: same_binding_trans [OF _ same_binding_except])
  qed
qed

lemma same_binding_chat: "same_binding p (snd (chat sv requests p))"
proof (cases "content requests = []")
  case True
  then show ?thesis by (simp add: chat_def same_binding_refl)
next
  case False
  let ?q = "datastore_query [\<lparr>Query.query = content requests, filter_opt = None, top_k = 3\<rparr>] p"
  have q: "same_binding p (snd ?q)"
    by (rule same_binding_datastore_query)
  have ex: "same_binding p (snd (except_Exception tb dt e (snd ?q)))" for tb dt e
    by (rule same_binding_trans [OF q same_binding_except])
  show ?thesis
  proof (cases "fst ?q")
    case (Inl e)
    then show ?thesis using False ex
      by (cases ?q) (simp add: chat_def)
  next
    case (Inr found)
    show ?thesis
    proof (cases found)
      case Nil
      then show ?thesis using False Inr ex
        by (cases ?q) (simp add: chat_def)
    next
      case (Cons r0 more)
      let ?ms = "chat_messages requests r0"
      let ?p2 = "emit (Print_messages ?ms) (snd ?q)"
      let ?c = "await (Call_get_chat_completion ?ms) (get_chat_completion sv ?ms) ?p2"
      have p2: "same_binding p ?p2"
        by (rule same_binding_trans [OF q]) (simp add: same_binding_emit)
      have c: "same_binding p (snd ?c)"
        by (rule same_binding_trans [OF p2]) (simp add: same_binding_await)
      have cx: "same_binding p (snd (except_Exception tb dt e (snd ?c)))" for tb dt e
        by (rule same_binding_trans [OF c same_binding_except])
      show ?thesis using False Inr Cons c cx
        by (cases ?q; cases ?c) (auto simp: chat_def Let_def split: sum.splits)
    qed
  qed
qed

lemma snd_returning: "snd (returning wrap out) = snd out"
  by (cases out) (simp add: returning_def split: sum.splits)

lemma same_binding_route: "same_binding p (snd (route sv rq p))"
  by (cases rq)
     (simp_all add: snd_returning same_binding_upsert_file same_binding_upsert
        same_binding_query_main same_binding_query same_binding_chat same_binding_list_index
        same_binding_delete)

lemma same_binding_validate_token: "same_binding p (snd (validate_token sv creds p))"
  by (simp add: validate_token_def Let_def same_binding_def emit_def)

lemma same_binding_serve_request:
  "same_binding p (snd (serve_request sv authorization rq p))"
proof (cases "bearer_scheme authorization")
  case (Inl x)
  then show ?thesis by (simp add: serve_request_def same_binding_refl)
next
  case creds: (Inr creds)
  show ?thesis
  proof (cases "validate_token sv creds p")
    case (Pair r p1)
    have v: "same_binding p p1"
      using same_binding_validate_token [of p sv creds] Pair by simp
    show ?thesis
    proof (cases r)
      case (Inl e)
      then show ?thesis using creds Pair v by (simp add: serve_request_def)
    next
      case (Inr c)
      then show ?thesis
        using creds Pair same_binding_trans [OF v same_binding_route [of p1 sv rq]]
        by (simp add: serve_request_def)
    qed
  qed
qed

lemma same_binding_serve: "same_binding p (snd (serve sv inbound p))"
proof (induction inbound arbitrary: p)
  case Nil
  show ?case by (simp add: same_binding_refl)
next
  case (Cons x rest)
  obtain authorization rq where x: "x = (authorization, rq)" by (cases x)
  obtain out p1 where s1: "serve_request sv authorization rq p = (out, p1)"
    by (cases "serve_request sv authorization rq p")
  have a: "same_binding p p1"
    using same_binding_serve_request [of p sv authorization rq] s1 by simp
  have b: "same_binding p1 (snd (serve sv rest p1))"
    by (rule Cons.IH)
  show ?case using same_binding_trans [OF a b] x s1
    by (cases "serve sv rest p1") simp
qed

subsection \<open>The concrete world, evaluated\<close>

lemmas handler_defs =
  upsert_file_def upsert_def query_main_def chat_def list_index_def query_def delete_def
  startup_def serve_request_def validate_token_def run_def returning_def metadata_obj_def
  bearer_scheme_def get_authorization_scheme_param_def partition_space_def lower_def
  lower_char_def
  datastore_upsert_def datastore_query_def datastore_delete_def await_def emit_def
  except_Exception_def Internal_Service_Error_def str_detail_def
  truthy_list_def truthy_object_def truthy_bool_def

lemmas demo_defs =
  demo_datastore_def failing_datastore_def demo_collaborators_def demo_parse_raw_def
  demo_document_def demo_file_def demo_credentials_def demo_authorization_def
  unbound_process_def demo_process_def
  failing_process_def demo_documents_def demo_queries_def empty_delete_def demo_id_def
  delete_everything_def BackendError_def ValidationError_def default_metadata_def


section \<open>Deleting\<close>

text \<open>
  Claim C1. A delete request that sets none of \<^verbatim>\<open>ids\<close>, \<^verbatim>\<open>filter\<close> and \<^verbatim>\<open>delete_all\<close>
  (the ids are absent or an empty list, the filter is absent, \<^verbatim>\<open>delete_all\<close> is absent
  or false) fails: the handler raises its invalid-request error, the HTTP exception with
  status 400 and the detail "One of ids, filter, or delete_all is required".
\<close>

theorem delete_without_mode_is_rejected:
  assumes "DeleteRequest.ids request = None \<or> DeleteRequest.ids request = Some []"
      and "DeleteRequest.filter_opt request = None"
      and "delete_all request = None \<or> delete_all request = Some False"
  shows "fst (delete request p)
           = Inl (HTTPException 400 ''One of ids, filter, or delete_all is required'')"
  using assms by (auto simp: delete_def truthy_list_def truthy_object_def truthy_bool_def)

theorem delete_without_mode_is_rejected_witness:
  "(DeleteRequest.ids empty_delete = None \<or> DeleteRequest.ids empty_delete = Some [])
   \<and> DeleteRequest.filter_opt empty_delete = None
   \<and> (delete_all empty_delete = None \<or> delete_all empty_delete = Some False)
   \<and> fst (delete empty_delete demo_process)
        = Inl (HTTPException 400 ''One of ids, filter, or delete_all is required'')"
  using delete_without_mode_is_rejected [of empty_delete demo_process]
  by (simp add: empty_delete_def)

text \<open>
  Claim C2. A delete request rejected for setting no deletion mode is rejected before
  the backend is reached: the process after the call is the process before it, so the
  datastore's delete was not called (the trace has no new event) and the world outside
  is unchanged.
\<close>

theorem rejected_delete_never_reaches_datastore:
  assumes "DeleteRequest.ids request = None \<or> DeleteRequest.ids request = Some []"
      and "DeleteRequest.filter_opt request = None"
      and "delete_all request = None \<or> delete_all request = Some False"
  shows "snd (delete request p) = p
       \<and> external (snd (delete request p)) = external p
       \<and> trace (snd (delete request p)) = trace p
       \<and> List.filter is_datastore_call (trace (snd (delete request p)))
           = List.filter is_datastore_call (trace p)"
  using assms by (auto simp: delete_def truthy_list_def truthy_object_def truthy_bool_def)

theorem rejected_delete_never_reaches_datastore_witness:
  "(DeleteRequest.ids empty_delete = None \<or> DeleteRequest.ids empty_delete = Some [])
   \<and> DeleteRequest.filter_opt empty_delete = None
   \<and> (delete_all empty_delete = None \<or> delete_all empty_delete = Some False)
   \<and> snd (delete empty_delete demo_process) = demo_process
   \<and> external (snd (delete empty_delete demo_process)) = [''7'']
   \<and> trace (snd (delete empty_delete demo_process)) = []"
  using rejected_delete_never_reaches_datastore [of empty_delete demo_process]
  by (simp add: empty_delete_def demo_process_def)


section \<open>Upserting and querying\<close>

text \<open>
  Claim C3. When the datastore's upsert over the documents of an upsert request returns
  a list of ids, the handler returns a response holding exactly that list, unchanged and
  in the same order; the datastore was called once, with the request's documents.
\<close>

theorem upsert_returns_datastore_ids:
  assumes "datastore p = Some ds"
      and "DataStore.upsert ds (documents request) (external p) = (Inr new_ids, s')"
  shows "upsert request p
           = (Inr \<lparr>UpsertResponse.ids = new_ids\<rparr>,
              p\<lparr>trace := trace p @ [Call_datastore_upsert (documents request)], external := s'\<rparr>)"
  using assms by (simp add: upsert_def datastore_upsert_def await_def emit_def)

theorem upsert_returns_datastore_ids_witness:
  "datastore demo_process = Some demo_datastore
   \<and> DataStore.upsert demo_datastore (documents \<lparr>documents = demo_documents\<rparr>)
        (external demo_process) = (Inr [''1'', ''generated''], [''7'', ''1'', ''generated''])
   \<and> fst (upsert \<lparr>documents = demo_documents\<rparr> demo_process)
        = Inr \<lparr>UpsertResponse.ids = [''1'', ''generated'']\<rparr>"
  using upsert_returns_datastore_ids
    [of demo_process demo_datastore "\<lparr>documents = demo_documents\<rparr>"
        "[''1'', ''generated'']" "[''7'', ''1'', ''generated'']"]
  by (simp add: demo_process_def demo_datastore_def demo_documents_def demo_id_def)

text \<open>
  Claim C4. When the datastore's query over the queries of a query request returns a
  list of results, the handler of the main application returns a response wrapping
  exactly that list, unchanged; so the response has one result per input query, in input
  order, whenever the datastore's answer has. The datastore was called once, with the
  request's queries.
\<close>

theorem query_main_returns_datastore_results:
  assumes "datastore p = Some ds"
      and "DataStore.query ds (queries request) (external p) = (Inr found, s')"
  shows "query_main request p
           = (Inr \<lparr>QueryResponse.results = found\<rparr>,
              p\<lparr>trace := trace p @ [Call_datastore_query (queries request)], external := s'\<rparr>)
       \<and> (map QueryResult.query found = map Query.query (queries request)
            \<longrightarrow> (\<exists>r. fst (query_main request p) = Inr r
                  \<and> length (QueryResponse.results r) = length (queries request)
                  \<and> map QueryResult.query (QueryResponse.results r)
                      = map Query.query (queries request)))"
  using assms
  by (auto simp: query_main_def datastore_query_def await_def emit_def dest: map_eq_imp_length_eq)

theorem query_main_returns_datastore_results_witness:
  "datastore demo_process = Some demo_datastore
   \<and> DataStore.query demo_datastore (queries \<lparr>queries = demo_queries\<rparr>) (external demo_process)
       = (Inr [\<lparr>QueryResult.query = ''Where did the dog go?'', results = [demo_chunk]\<rparr>,
               \<lparr>QueryResult.query = ''Where did the cat sit?'', results = [demo_chunk]\<rparr>], [''7''])
   \<and> fst (query_main \<lparr>queries = demo_queries\<rparr> demo_process)
       = Inr \<lparr>QueryResponse.results =
               [\<lparr>QueryResult.query = ''Where did the dog go?'', results = [demo_chunk]\<rparr>,
                \<lparr>QueryResult.query = ''Where did the cat sit?'', results = [demo_chunk]\<rparr>]\<rparr>"
  using query_main_returns_datastore_results
    [of demo_process demo_datastore "\<lparr>queries = demo_queries\<rparr>"
        "[\<lparr>QueryResult.query = ''Where did the dog go?'', results = [demo_chunk]\<rparr>,
          \<lparr>QueryResult.query = ''Where did the cat sit?'', results = [demo_chunk]\<rparr>]" "[''7'']"]
  by (simp add: demo_process_def demo_datastore_def demo_queries_def)


section \<open>Uploading a file\<close>

text \<open>
  Claim C5. When the metadata form field of an upsert-file request is absent, or is
  given and the parser raises on it, the handler uses the default metadata, whose source
  is \<^verbatim>\<open>file\<close>, and goes on: the file is read with that metadata, which is the first thing
  the handler does, and when the reader returns a document the store receives that one
  document. The parse error does not reach the requester: response and effects are those
  of the same request without the field.
\<close>

theorem upsert_file_falls_back_to_default_metadata:
  assumes "form = None \<or> (\<exists>m e. form = Some m \<and> parse_raw sv m = Inl e)"
  shows "metadata_obj sv form = default_metadata
       \<and> DocumentMetadata.source (metadata_obj sv form) = Some Source_file
       \<and> upsert_file sv file form p = upsert_file sv file None p
       \<and> (\<exists>rest. trace (snd (upsert_file sv file form p))
              = trace p @ Call_get_document_from_file file default_metadata # rest)
       \<and> (\<forall>document s1 ds.
             get_document_from_file sv file default_metadata (external p) = (Inr document, s1)
             \<and> datastore p = Some ds
             \<longrightarrow> (\<exists>rest. trace (snd (upsert_file sv file form p))
                    = trace p @ Call_get_document_from_file file default_metadata
                        # Call_datastore_upsert [document] # rest))"
  using assms
  by (auto simp: metadata_obj_def upsert_file_def default_metadata_def await_def emit_def
        datastore_upsert_def except_Exception_def Let_def
        split: prod.splits sum.splits option.splits list.splits)

theorem upsert_file_falls_back_to_default_metadata_witness:
  "parse_raw demo_collaborators ''{source: 7'' = Inl ValidationError
   \<and> metadata_obj demo_collaborators (Some ''{source: 7'') = default_metadata
   \<and> upsert_file demo_collaborators demo_file (Some ''{source: 7'') demo_process
       = upsert_file demo_collaborators demo_file None demo_process
   \<and> fst (upsert_file demo_collaborators demo_file None demo_process)
       = Inr \<lparr>UpsertResponse.ids = [''generated'']\<rparr>"
  using upsert_file_falls_back_to_default_metadata
    [of "Some ''{source: 7''" demo_collaborators demo_file demo_process]
  by (simp add: handler_defs demo_defs Let_def)


section \<open>Failures of the datastore\<close>

text \<open>
  When the datastore raises an instance of \<^verbatim>\<open>Exception\<close> during the call made by the
  upsert handler, by either query handler or by the delete handler, the handler answers
  with status 500 and the detail "Internal Service Error", whatever the class and the
  message of the exception. For the delete handler the call is made only when the
  request sets a deletion mode.
\<close>

lemma handlers_answer_Internal_Service_Error:
  assumes "datastore p = Some ds" and "exc_is_Exception e"
  shows "(DataStore.upsert ds (documents ur) (external p) = (Inl e, s')
            \<longrightarrow> fst (upsert ur p) = Inl (HTTPException 500 ''Internal Service Error''))
       \<and> (DataStore.query ds (queries qr) (external p) = (Inl e, s')
            \<longrightarrow> fst (query_main qr p) = Inl (HTTPException 500 ''Internal Service Error'')
              \<and> fst (query qr p) = Inl (HTTPException 500 ''Internal Service Error''))
       \<and> (((\<exists>x xs. DeleteRequest.ids dr = Some (x # xs)) \<or> DeleteRequest.filter_opt dr \<noteq> None
              \<or> delete_all dr = Some True)
           \<and> DataStore.delete ds (DeleteRequest.ids dr) (DeleteRequest.filter_opt dr)
                (delete_all dr) (external p) = (Inl e, s')
            \<longrightarrow> fst (delete dr p) = Inl (HTTPException 500 ''Internal Service Error''))"
  using assms
  by (auto simp: upsert_def query_main_def query_def delete_def datastore_upsert_def
        datastore_query_def datastore_delete_def await_def emit_def except_Exception_def
        Internal_Service_Error_def truthy_list_def truthy_object_def truthy_bool_def
        split: option.splits)

text \<open>
  The upsert-file handler makes the same call of the datastore's upsert, and answers an
  exception of it with status 500 too, but with the detail \<^verbatim>\<open>f"str({e})"\<close>: the text
  of the exception between \<^verbatim>\<open>str(\<close> and \<^verbatim>\<open>)\<close>.
\<close>

lemma upsert_file_answers_str_detail:
  assumes "get_document_from_file sv file (metadata_obj sv form) (external p) = (Inr document, s1)"
      and "datastore p = Some ds"
      and "DataStore.upsert ds [document] s1 = (Inl e, s2)"
      and "exc_is_Exception e"
  shows "fst (upsert_file sv file form p) = Inl (HTTPException 500 (''str('' @ exc_str e @ '')''))"
  using assms
  by (simp add: upsert_file_def Let_def datastore_upsert_def await_def emit_def
        except_Exception_def str_detail_def)

text \<open>
  Claim C6. Every exception the datastore raises during an upsert, query or delete call
  is to be answered with status 500 and the detail "Internal Service Error", so that
  the requester does not learn which error it was. The upsert-file handler does not do
  so: on a file upload to a datastore whose upsert raises \<^verbatim>\<open>BackendError\<close> with the
  message \<^verbatim>\<open>index unavailable\<close>, the requester receives the detail
  \<^verbatim>\<open>str(index unavailable)\<close>, while the upsert handler answers the same exception of the
  same datastore with "Internal Service Error".
\<close>

theorem upsert_file_reveals_datastore_message:
  "fst (upsert_file demo_collaborators demo_file None failing_process)
       = Inl (HTTPException 500 ''str(index unavailable)'')
   \<and> fst (upsert_file demo_collaborators demo_file None failing_process)
       \<noteq> Inl (HTTPException 500 ''Internal Service Error'')
   \<and> fst (upsert \<lparr>documents = [demo_document demo_file default_metadata]\<rparr> failing_process)
       = Inl (HTTPException 500 ''Internal Service Error'')"
  by (simp add: handler_defs demo_defs Let_def)


section \<open>Credentials\<close>

text \<open>
  Claim C7, as stated: every inbound request is rejected with status 401 if and only if
  its authorization scheme is not "Bearer" or its credential is not the configured
  token. This fails: a request with the header \<^verbatim>\<open>Authorization: Basic secret\<close> has a
  scheme other than "Bearer", and it is rejected by the bearer dependency with status
  403, before \<^verbatim>\<open>validate_token\<close> runs; no answer with status 401 is given.
\<close>

theorem basic_scheme_is_rejected_with_403:
  "get_authorization_scheme_param (Some ''Basic secret'') = (''Basic'', ''secret'')
   \<and> ''Basic'' \<noteq> ''Bearer''
   \<and> serve_request demo_collaborators (Some ''Basic secret'')
        (DELETE_delete delete_everything) demo_process
       = (Inl (HTTPException 403 ''Invalid authentication credentials''), demo_process)
   \<and> \<not> (\<exists>d. fst (serve_request demo_collaborators (Some ''Basic secret'')
                   (DELETE_delete delete_everything) demo_process)
               = Inl (HTTPException 401 d))"
  by (simp add: serve_request_def bearer_scheme_def get_authorization_scheme_param_def
        partition_space_def lower_def lower_char_def truthy_list_def)

text \<open>
  Claim C7, amended. Every request passes through the validation of its credentials
  before its handler, in two steps. The bearer dependency rejects the request with
  status 403, leaving the process as it was, exactly when the Authorization header is
  missing or empty, has no scheme or no credential, or has a scheme that is not "bearer"
  in any capitalisation; otherwise it passes the scheme and the credential on. A request
  that is passed on is answered with status 401 if and only if its scheme is not exactly
  "Bearer" or its credential differs from the configured token, and then the handler
  does not run (the only effects are the two prints of the validation). Otherwise the
  validation returns the credentials and the handler runs, on the process as the
  validation left it. No other answer has status 401 or 403.
\<close>

theorem credentials_gate_every_request:
  "(bearer_scheme authorization = Inr creds
      \<longleftrightarrow> (\<exists>h. authorization = Some h
               \<and> partition_space h = (scheme creds, credentials creds)
               \<and> scheme creds \<noteq> [] \<and> credentials creds \<noteq> []
               \<and> lower (scheme creds) = ''bearer''))
   \<and> (bearer_scheme authorization = Inl x
      \<longrightarrow> serve_request sv authorization rq p = (Inl x, p)
        \<and> (x = HTTPException 403 ''Not authenticated''
            \<or> x = HTTPException 403 ''Invalid authentication credentials''))
   \<and> (bearer_scheme authorization = Inr creds
      \<longrightarrow> ((\<exists>d. fst (serve_request sv authorization rq p) = Inl (HTTPException 401 d))
            \<longleftrightarrow> (scheme creds \<noteq> ''Bearer'' \<or> credentials creds \<noteq> BEARER_TOKEN sv))
        \<and> (scheme creds \<noteq> ''Bearer'' \<or> credentials creds \<noteq> BEARER_TOKEN sv
            \<longrightarrow> serve_request sv authorization rq p
                  = (Inl (HTTPException 401 ''Invalid or missing token''),
                     p\<lparr>trace := trace p @ [Print_credentials creds, Print_credentials creds]\<rparr>))
        \<and> (scheme creds = ''Bearer'' \<and> credentials creds = BEARER_TOKEN sv
            \<longrightarrow> validate_token sv creds p
                  = (Inr creds,
                     p\<lparr>trace := trace p @ [Print_credentials creds, Print_credentials creds]\<rparr>)
              \<and> serve_request sv authorization rq p
                  = route sv rq
                      (p\<lparr>trace := trace p @ [Print_credentials creds, Print_credentials creds]\<rparr>)))
   \<and> ((\<exists>d. fst (serve_request sv authorization rq p) = Inl (HTTPException 403 d))
        \<longleftrightarrow> (\<exists>x. bearer_scheme authorization = Inl x))
   \<and> ((\<exists>d. fst (serve_request sv authorization rq p) = Inl (HTTPException 401 d))
        \<longleftrightarrow> (\<exists>c. bearer_scheme authorization = Inr c
                  \<and> (scheme c \<noteq> ''Bearer'' \<or> credentials c \<noteq> BEARER_TOKEN sv)))"
proof -
  have pass: "bearer_scheme authorization = Inr creds
      \<longleftrightarrow> (\<exists>h. authorization = Some h
               \<and> partition_space h = (scheme creds, credentials creds)
               \<and> scheme creds \<noteq> [] \<and> credentials creds \<noteq> []
               \<and> lower (scheme creds) = ''bearer'')"
    by (cases creds)
       (auto simp: bearer_scheme_def get_authorization_scheme_param_def truthy_list_def
          partition_space_def split: option.splits prod.splits if_splits)
  have no: "n \<noteq> 400 \<Longrightarrow> n \<noteq> 500 \<Longrightarrow> fst (route sv rq q) \<noteq> Inl (HTTPException n d)" for n d q
    using route_status [of sv rq q n d] by blast
  have rej: "serve_request sv authorization rq p = (Inl x, p)
        \<and> (x = HTTPException 403 ''Not authenticated''
            \<or> x = HTTPException 403 ''Invalid authentication credentials'')"
    if "bearer_scheme authorization = Inl x" for x
    using that bearer_scheme_status [OF that] by (simp add: serve_request_def)
  have val: "((\<exists>d. fst (serve_request sv authorization rq p) = Inl (HTTPException 401 d))
            \<longleftrightarrow> (scheme c \<noteq> ''Bearer'' \<or> credentials c \<noteq> BEARER_TOKEN sv))
        \<and> (\<forall>d. fst (serve_request sv authorization rq p) \<noteq> Inl (HTTPException 403 d))
        \<and> (scheme c \<noteq> ''Bearer'' \<or> credentials c \<noteq> BEARER_TOKEN sv
            \<longrightarrow> serve_request sv authorization rq p
                  = (Inl (HTTPException 401 ''Invalid or missing token''),
                     p\<lparr>trace := trace p @ [Print_credentials c, Print_credentials c]\<rparr>))
        \<and> (scheme c = ''Bearer'' \<and> credentials c = BEARER_TOKEN sv
            \<longrightarrow> validate_token sv c p
                  = (Inr c, p\<lparr>trace := trace p @ [Print_credentials c, Print_credentials c]\<rparr>)
              \<and> serve_request sv authorization rq p
                  = route sv rq
                      (p\<lparr>trace := trace p @ [Print_credentials c, Print_credentials c]\<rparr>))"
    if "bearer_scheme authorization = Inr c" for c
    using that no [of 401] no [of 403]
    by (auto simp: serve_request_def validate_token_def emit_def Let_def)
  show ?thesis
  proof (cases "bearer_scheme authorization")
    case (Inl x)
    then show ?thesis using pass rej [OF Inl] by auto
  next
    case (Inr c)
    then show ?thesis using pass val [OF Inr] by auto
  qed
qed

theorem credentials_gate_every_request_witness:
  "bearer_scheme None = Inl (HTTPException 403 ''Not authenticated'')
   \<and> serve_request demo_collaborators None (DELETE_delete delete_everything) demo_process
       = (Inl (HTTPException 403 ''Not authenticated''), demo_process)
   \<and> bearer_scheme (Some ''bearer secret'') = Inr \<lparr>scheme = ''bearer'', credentials = ''secret''\<rparr>
   \<and> fst (serve_request demo_collaborators (Some ''bearer secret'')
            (DELETE_delete delete_everything) demo_process)
       = Inl (HTTPException 401 ''Invalid or missing token'')
   \<and> external (snd (serve_request demo_collaborators (Some ''bearer secret'')
            (DELETE_delete delete_everything) demo_process)) = [''7'']
   \<and> bearer_scheme demo_authorization = Inr demo_credentials
   \<and> scheme demo_credentials = ''Bearer''
   \<and> credentials demo_credentials = BEARER_TOKEN demo_collaborators
   \<and> fst (serve_request demo_collaborators demo_authorization
            (DELETE_delete delete_everything) demo_process)
       = Inr (Delete_response \<lparr>success = True\<rparr>)
   \<and> external (snd (serve_request demo_collaborators demo_authorization
            (DELETE_delete delete_everything) demo_process)) = []"
  using credentials_gate_every_request
    [of None _ "HTTPException 403 ''Not authenticated''" demo_collaborators
        "DELETE_delete delete_everything" demo_process]
    credentials_gate_every_request
    [of "Some ''bearer secret''" "\<lparr>scheme = ''bearer'', credentials = ''secret''\<rparr>" _
        demo_collaborators "DELETE_delete delete_everything" demo_process]
    credentials_gate_every_request
    [of demo_authorization demo_credentials _ demo_collaborators
        "DELETE_delete delete_everything" demo_process]
  by (simp add: handler_defs demo_defs)


section \<open>The binding of the datastore\<close>

text \<open>
  Claim C8. The global \<^verbatim>\<open>datastore\<close> is bound at startup and by nothing else: no handler
  (upsert-file, upsert, the two queries, chat, list-index, delete) and no served request
  changes what it holds. In a process whose factory returns a datastore, the startup
  hook binds the global to that object, the global still holds it after any sequence of
  requests, and the factory has been called exactly once by then.
\<close>

theorem datastore_bound_once_at_startup:
  "datastore (snd (route sv rq p)) = datastore p
   \<and> datastore (snd (serve_request sv authorization rq p)) = datastore p
   \<and> (get_datastore sv (external p0) = (Inr ds, s1) \<longrightarrow>
        datastore (snd (startup sv p0)) = Some ds
      \<and> datastore (snd (run sv inbound p0)) = Some ds
      \<and> length (List.filter is_get_datastore (trace (snd (run sv inbound p0))))
          = Suc (length (List.filter is_get_datastore (trace p0))))"
proof -
  have r: "datastore (snd (route sv rq p)) = datastore p"
    using same_binding_route [of p sv rq] by (simp add: same_binding_def)
  have s: "datastore (snd (serve_request sv authorization rq p)) = datastore p"
    using same_binding_serve_request [of p sv authorization rq] by (simp add: same_binding_def)
  have u: "datastore (snd (startup sv p0)) = Some ds
      \<and> datastore (snd (run sv inbound p0)) = Some ds
      \<and> length (List.filter is_get_datastore (trace (snd (run sv inbound p0))))
          = Suc (length (List.filter is_get_datastore (trace p0)))"
    if g: "get_datastore sv (external p0) = (Inr ds, s1)"
  proof -
    let ?p1 = "p0\<lparr>trace := trace p0 @ [Call_get_datastore], external := s1, datastore := Some ds\<rparr>"
    have st: "startup sv p0 = (Inr (), ?p1)"
      using g by (simp add: startup_def await_def emit_def)
    have sb: "same_binding ?p1 (snd (serve sv inbound ?p1))"
      by (rule same_binding_serve)
    have rn: "snd (run sv inbound p0) = snd (serve sv inbound ?p1)"
      using st by (simp add: run_def split: prod.splits)
    show ?thesis using st sb rn by (simp add: same_binding_def)
  qed
  show ?thesis using r s u by blast
qed

theorem datastore_bound_once_at_startup_witness:
  "get_datastore demo_collaborators (external unbound_process) = (Inr demo_datastore, [])
   \<and> datastore unbound_process = None
   \<and> datastore (snd (run demo_collaborators
        [(demo_authorization, POST_upsert \<lparr>documents = demo_documents\<rparr>),
         (demo_authorization, DELETE_delete delete_everything)] unbound_process))
       = Some demo_datastore
   \<and> length (List.filter is_get_datastore (trace (snd (run demo_collaborators
        [(demo_authorization, POST_upsert \<lparr>documents = demo_documents\<rparr>),
         (demo_authorization, DELETE_delete delete_everything)] unbound_process)))) = 1"
  using datastore_bound_once_at_startup
    [of demo_collaborators "POST_upsert \<lparr>documents = demo_documents\<rparr>" unbound_process
        demo_authorization unbound_process demo_datastore "[]"
        "[(demo_authorization, POST_upsert \<lparr>documents = demo_documents\<rparr>),
          (demo_authorization, DELETE_delete delete_everything)]"]
  by (simp add: demo_collaborators_def unbound_process_def)


section \<open>The two query endpoints\<close>

text \<open>
  Claim C9. The query handler of the main application and the one of the
  sub-application agree on every request and every process: the same response or the
  same error, the same call of the datastore on the same queries, the same world outside
  afterwards, also when each is reached through the validation of the credentials. The
  handlers differ in one thing only, which no requester sees: on an exception the main
  application's handler also prints the traceback.
\<close>

theorem query_endpoints_agree:
  "fst (query_main request p) = fst (query request p)
   \<and> external (snd (query_main request p)) = external (snd (query request p))
   \<and> datastore (snd (query_main request p)) = datastore (snd (query request p))
   \<and> List.filter is_datastore_call (trace (snd (query_main request p)))
       = List.filter is_datastore_call (trace (snd (query request p)))
   \<and> List.filter (\<lambda>ev. \<not> is_Print_exc ev) (trace (snd (query_main request p)))
       = List.filter (\<lambda>ev. \<not> is_Print_exc ev) (trace (snd (query request p)))
   \<and> fst (serve_request sv authorization (POST_query request) p)
       = fst (serve_request sv authorization (POST_sub_query request) p)"
  by (auto simp: query_main_def query_def datastore_query_def await_def emit_def
        except_Exception_def serve_request_def validate_token_def returning_def Let_def
        split: prod.splits sum.splits option.splits)

theorem query_endpoints_agree_witness:
  "fst (query_main \<lparr>queries = demo_queries\<rparr> failing_process)
       = Inl (HTTPException 500 ''Internal Service Error'')
   \<and> fst (query \<lparr>queries = demo_queries\<rparr> failing_process)
       = Inl (HTTPException 500 ''Internal Service Error'')
   \<and> List.filter is_datastore_call (trace (snd (query_main \<lparr>queries = demo_queries\<rparr> failing_process)))
       = [Call_datastore_query demo_queries]
   \<and> List.filter is_datastore_call (trace (snd (query \<lparr>queries = demo_queries\<rparr> failing_process)))
       = [Call_datastore_query demo_queries]
   \<and> fst (query_main \<lparr>queries = demo_queries\<rparr> demo_process)
       = fst (query \<lparr>queries = demo_queries\<rparr> demo_process)"
  using query_endpoints_agree [of "\<lparr>queries = demo_queries\<rparr>" failing_process]
    query_endpoints_agree [of "\<lparr>queries = demo_queries\<rparr>" demo_process]
  by (simp add: handler_defs failing_process_def failing_datastore_def BackendError_def)


section \<open>Chat\<close>

text \<open>
  Claim C10. A chat request with empty content fails with status 400 and leaves the
  process as it was, so the datastore is not called. A chat request with non-empty
  content, in a process whose datastore is bound, calls the datastore exactly once: the
  first thing the handler does is one query call with a single query, whose string is
  the content, whose \<^verbatim>\<open>top_k\<close> is 3 and which has no filter; whatever follows, the
  request of a completion included, comes after it and is no call of the datastore.
\<close>

theorem chat_queries_datastore_once:
  "(content requests = []
      \<longrightarrow> chat sv requests p = (Inl (HTTPException 400 ''One of content is required''), p))
   \<and> (content requests \<noteq> [] \<and> datastore p = Some ds
      \<longrightarrow> (\<exists>rest. trace (snd (chat sv requests p))
              = trace p @ Call_datastore_query
                  [\<lparr>Query.query = content requests, filter_opt = None, top_k = 3\<rparr>] # rest
            \<and> List.filter is_datastore_call rest = []))"
  by (auto simp: chat_def datastore_query_def await_def emit_def
        except_Exception_def Let_def split: prod.splits sum.splits option.splits list.splits)

theorem chat_queries_datastore_once_witness:
  "content \<lparr>content = ''''\<rparr> = []
   \<and> chat demo_collaborators \<lparr>content = ''''\<rparr> demo_process
       = (Inl (HTTPException 400 ''One of content is required''), demo_process)
   \<and> content \<lparr>content = ''Where did the dog go?''\<rparr> \<noteq> []
   \<and> datastore demo_process = Some demo_datastore
   \<and> (\<exists>rest. trace (snd (chat demo_collaborators \<lparr>content = ''Where did the dog go?''\<rparr> demo_process))
         = trace demo_process @ Call_datastore_query
             [\<lparr>Query.query = ''Where did the dog go?'', filter_opt = None, top_k = 3\<rparr>] # rest
       \<and> List.filter is_datastore_call rest = [])
   \<and> fst (chat demo_collaborators \<lparr>content = ''Where did the dog go?''\<rparr> demo_process)
       = Inr ''The dog ran in the park.''"
  using chat_queries_datastore_once [of "\<lparr>content = ''''\<rparr>" demo_collaborators demo_process]
    chat_queries_datastore_once
      [of "\<lparr>content = ''Where did the dog go?''\<rparr>" demo_collaborators demo_process demo_datastore]
  by (simp add: handler_defs demo_defs Let_def)

end
